theory Spec2Isabelle
  imports Main
begin

section \<open>Terraform provider for Nango: the integration resource, the data source, the transport\<close>

text \<open>
  The development embeds \<^verbatim>\<open>internal/provider/integration_resource.go\<close>, the data source that
  follows it in the same listing, and the transport of the provider file. Every operation is a
  total function of its request, of the HTTP client it was configured with and of the library
  functions it calls; what the Go code prints to standard output or to the log is not part of
  the result and is left out.
\<close>

subsection \<open>Values of the plugin framework\<close>

text \<open>
  \<^verbatim>\<open>types.String\<close> is null, unknown or a known string. \<^verbatim>\<open>ValueString\<close> gives the empty
  string for null and unknown; \<^verbatim>\<open>ValueStringPointer\<close> gives nil for null and a pointer to the
  empty string for unknown.
\<close>

datatype tfString = StringNull | StringUnknown | StringValue string

fun ValueString :: "tfString \<Rightarrow> string" where
  "ValueString (StringValue s) = s"
| "ValueString StringNull = []"
| "ValueString StringUnknown = []"

fun ValueStringPointer :: "tfString \<Rightarrow> string option" where
  "ValueStringPointer StringNull = None"
| "ValueStringPointer StringUnknown = Some []"
| "ValueStringPointer (StringValue s) = Some s"

datatype tfList = ListNull | ListUnknown | ListValue "tfString list"

text \<open>
  \<^verbatim>\<open>ElementsAs(ctx, &scopes, false)\<close> into a nil \<^verbatim>\<open>[]string\<close>: a known list of known strings
  gives its strings; a null list gives the nil slice; an unknown list, or an element that is
  null or unknown, gives diagnostics and leaves the target untouched. The callers drop the
  diagnostics, so all that is left of a failed conversion is the nil slice.
\<close>

fun knownStrings :: "tfString list \<Rightarrow> string list option" where
  "knownStrings [] = Some []"
| "knownStrings (StringValue s # xs) =
     (case knownStrings xs of None \<Rightarrow> None | Some ys \<Rightarrow> Some (s # ys))"
| "knownStrings (StringNull # xs) = None"
| "knownStrings (StringUnknown # xs) = None"

fun ElementsAs :: "tfList \<Rightarrow> string list" where
  "ElementsAs (ListValue xs) = (case knownStrings xs of None \<Rightarrow> [] | Some ys \<Rightarrow> ys)"
| "ElementsAs ListNull = []"
| "ElementsAs ListUnknown = []"

text \<open>\<^verbatim>\<open>strings.Join\<close>: nothing for no element, the element itself for one.\<close>

fun Join :: "string list \<Rightarrow> string \<Rightarrow> string" where
  "Join [] sep = []"
| "Join [x] sep = x"
| "Join (x # y # ys) sep = x @ sep @ Join (y # ys) sep"

subsection \<open>Diagnostics\<close>

datatype diagnostic = ErrorDiagnostic string string | WarningDiagnostic string string

fun HasError :: "diagnostic list \<Rightarrow> bool" where
  "HasError [] = False"
| "HasError (ErrorDiagnostic summary detail # ds) = True"
| "HasError (WarningDiagnostic summary detail # ds) = HasError ds"

text \<open>\<^verbatim>\<open>Diagnostics.Append\<close> skips a diagnostic the collection already contains.\<close>

fun Append :: "diagnostic list \<Rightarrow> diagnostic list \<Rightarrow> diagnostic list" where
  "Append diags [] = diags"
| "Append diags (d # ds) = Append (if d \<in> set diags then diags else diags @ [d]) ds"

definition AddError :: "diagnostic list \<Rightarrow> string \<Rightarrow> string \<Rightarrow> diagnostic list" where
  "AddError diags summary detail = Append diags [ErrorDiagnostic summary detail]"

text \<open>
  What \<^verbatim>\<open>req.Plan.Get(ctx, &plan)\<close> and \<^verbatim>\<open>req.State.Get(ctx, &state)\<close> yield: the diagnostics
  returned and the value left in the target.
\<close>

record 'a tfsdkData =
  GetDiags :: "diagnostic list"
  GetValue :: 'a

subsection \<open>The wire models and the declarative models\<close>

record integrationCredentialsRequestModel =
  ClientId :: string
  ClientSecret :: string
  Type :: string
  Scopes :: string

record integrationRequestModel =
  UniqueKey :: "string option"
  DisplayName :: string
  NangoProvider :: "string option"
  Credentials :: integrationCredentialsRequestModel

record nangoIntegrationModel =
  UniqueKey :: string
  DisplayName :: string
  NangoProvider :: string
  UpdatedAt :: string

record nangoIntegrationResponse =
  Data :: "nangoIntegrationModel list"

record nanogoIntegrationResponse2 =
  Data :: nangoIntegrationModel

record integrationCredentialModel =
  ClientId :: tfString
  ClientSecret :: tfString
  Type :: tfString
  Scopes :: tfList

record integrationModel =
  UniqueKey :: tfString
  DisplayName :: tfString
  NangoProvider :: tfString
  UpdatedAt :: tfString
  Credentials :: "integrationCredentialModel option"

record integrationDataSourceModel =
  Integrations :: "integrationModel list"

subsection \<open>JSON request bodies\<close>

text \<open>
  \<^verbatim>\<open>json.Marshal\<close> of the request model writes one member per struct field, in the order of
  the fields and under the name of the field's tag; a nil pointer tagged \<^verbatim>\<open>omitempty\<close> writes
  no member. A struct of strings always marshals, so the error branch after \<^verbatim>\<open>json.Marshal\<close>
  is never taken.
\<close>

datatype json = JString string | JObject "(string \<times> json) list"

definition MarshalCredentials :: "integrationCredentialsRequestModel \<Rightarrow> json" where
  "MarshalCredentials c = JObject
     [(''client_id'', JString (integrationCredentialsRequestModel.ClientId c)),
      (''client_secret'', JString (integrationCredentialsRequestModel.ClientSecret c)),
      (''type'', JString (integrationCredentialsRequestModel.Type c)),
      (''scopes'', JString (integrationCredentialsRequestModel.Scopes c))]"

definition Marshal :: "integrationRequestModel \<Rightarrow> json" where
  "Marshal request = JObject
     ((case integrationRequestModel.UniqueKey request of
         None \<Rightarrow> [] | Some k \<Rightarrow> [(''unique_key'', JString k)]) @
      [(''display_name'', JString (integrationRequestModel.DisplayName request))] @
      (case integrationRequestModel.NangoProvider request of
         None \<Rightarrow> [] | Some p \<Rightarrow> [(''provider'', JString p)]) @
      [(''credentials'', MarshalCredentials (integrationRequestModel.Credentials request))])"

subsection \<open>HTTP\<close>

text \<open>
  A header maps a canonical key to its values, in order. \<^verbatim>\<open>Add\<close> appends a value to those of
  the key, \<^verbatim>\<open>Set\<close> replaces them, \<^verbatim>\<open>Get\<close> reads the first one.
\<close>

type_synonym Header = "string \<rightharpoonup> string list"

definition Header_Values :: "Header \<Rightarrow> string \<Rightarrow> string list" where
  "Header_Values h key = (case h key of None \<Rightarrow> [] | Some vs \<Rightarrow> vs)"

definition Header_Add :: "Header \<Rightarrow> string \<Rightarrow> string \<Rightarrow> Header" where
  "Header_Add h key v = h(key \<mapsto> Header_Values h key @ [v])"

definition Header_Set :: "Header \<Rightarrow> string \<Rightarrow> string \<Rightarrow> Header" where
  "Header_Set h key v = h(key \<mapsto> [v])"

definition Header_Get :: "Header \<Rightarrow> string \<Rightarrow> string" where
  "Header_Get h key = (case Header_Values h key of [] \<Rightarrow> [] | v # vs \<Rightarrow> v)"

record Request =
  Method :: string
  URL :: string
  Header :: Header
  Body :: "json option"

record Response =
  StatusCode :: int
  Body :: string

text \<open>
  The libraries the operations call: \<^verbatim>\<open>net/url\<close> (the error of parsing a URL, if any),
  \<^verbatim>\<open>encoding/json\<close> (what \<^verbatim>\<open>json.NewDecoder(body).Decode(&v)\<close> leaves in \<^verbatim>\<open>v\<close> for each of
  the three target types, or its error) and the clock (\<^verbatim>\<open>time.Now().Format(time.RFC3339)\<close>).
\<close>

record runtime =
  urlError :: "string \<Rightarrow> string option"
  decodeModel :: "string \<Rightarrow> string + nangoIntegrationModel"
  decodeResponse2 :: "string \<Rightarrow> string + nanogoIntegrationResponse2"
  decodeResponse :: "string \<Rightarrow> string + nangoIntegrationResponse"
  now :: string

text \<open>
  The retrying HTTP client is its \<^verbatim>\<open>Do\<close>: a request gives an error or a response. \<^verbatim>\<open>Get\<close>
  and \<^verbatim>\<open>Post\<close> build a request and hand it to \<^verbatim>\<open>Do\<close>; a URL that does not parse gives the
  error before anything is sent. Each helper returns the requests it handed over.
\<close>

record nangoClient =
  client :: "Request \<Rightarrow> string + Response"
  baseURL :: string

definition NewRequest :: "runtime \<Rightarrow> string \<Rightarrow> string \<Rightarrow> json option \<Rightarrow> string + Request" where
  "NewRequest E method url body =
     (case urlError E url of
        Some err \<Rightarrow> Inl err
      | None \<Rightarrow> Inr \<lparr>Method = method, URL = url, Header = Map.empty, Request.Body = body\<rparr>)"

definition Get :: "runtime \<Rightarrow> nangoClient \<Rightarrow> string \<Rightarrow> Request list \<times> (string + Response)" where
  "Get E c url =
     (case NewRequest E ''GET'' url None of
        Inl err \<Rightarrow> ([], Inl err)
      | Inr req \<Rightarrow> ([req], client c req))"

definition Post :: "runtime \<Rightarrow> nangoClient \<Rightarrow> string \<Rightarrow> string \<Rightarrow> json \<Rightarrow> Request list \<times> (string + Response)" where
  "Post E c url bodyType body =
     (case NewRequest E ''POST'' url (Some body) of
        Inl err \<Rightarrow> ([], Inl err)
      | Inr req \<Rightarrow>
          (let req' = req\<lparr>Header := Header_Set (Header req) ''Content-Type'' bodyType\<rparr>
           in ([req'], client c req')))"

subsection \<open>The authenticated transport\<close>

record myTransport =
  authKey :: string
  "next" :: "Request \<Rightarrow> string + Response"

text \<open>
  \<^verbatim>\<open>RoundTrip\<close> changes the header of the request it was given, so the request is part of the
  result. Reading a body and putting the bytes back leaves it as it was.
\<close>

definition RoundTrip :: "myTransport \<Rightarrow> Request \<Rightarrow> Request \<times> (string + Response)" where
  "RoundTrip t req =
     (let req' = req\<lparr>Header := Header_Add (Header req) ''Authorization'' (''Bearer '' @ authKey t)\<rparr>
      in (req', case next t req' of Inl err \<Rightarrow> Inl err | Inr resp \<Rightarrow> Inr resp))"

subsection \<open>The retrying client\<close>







subsection \<open>The resource\<close>

text \<open>
  What an operation leaves behind: the requests handed to the HTTP client, in order, the
  diagnostics of the response, and the state written by \<^verbatim>\<open>resp.State.Set\<close> (\<open>None\<close> when the
  operation returned before writing one). Writing a model of the schema's own shape back is
  taken to succeed without diagnostics. A nil pointer dereference is \<open>Panicked\<close>.
\<close>

record 'st opResponse =
  Requests :: "Request list"
  Diagnostics :: "diagnostic list"
  State :: "'st option"

datatype 'a run = Panicked | Returned 'a

record integrationResource =
  client :: "nangoClient option"

text \<open>Lines 112 to 115 and 243 to 246: the scopes of the plan as one comma-delimited string.\<close>

definition scopesString :: "integrationCredentialModel \<Rightarrow> string" where
  "scopesString creds = Join (ElementsAs (Scopes creds)) '',''"

text \<open>The request model of \<^verbatim>\<open>Create\<close> (lines 118 to 128) and of \<^verbatim>\<open>Update\<close> (lines 249 to 259).\<close>

definition createRequestModel :: "integrationModel \<Rightarrow> integrationCredentialModel \<Rightarrow> integrationRequestModel" where
  "createRequestModel plan creds =
     \<lparr>integrationRequestModel.UniqueKey = ValueStringPointer (UniqueKey plan),
      integrationRequestModel.DisplayName = ValueString (DisplayName plan),
      integrationRequestModel.NangoProvider = ValueStringPointer (NangoProvider plan),
      integrationRequestModel.Credentials =
        \<lparr>integrationCredentialsRequestModel.ClientId = ValueString (ClientId creds),
         integrationCredentialsRequestModel.ClientSecret = ValueString (ClientSecret creds),
         integrationCredentialsRequestModel.Type = ValueString (Type creds),
         integrationCredentialsRequestModel.Scopes = scopesString creds\<rparr>\<rparr>"

definition updateRequestModel :: "integrationModel \<Rightarrow> integrationCredentialModel \<Rightarrow> integrationRequestModel" where
  "updateRequestModel plan creds =
     \<lparr>integrationRequestModel.UniqueKey = ValueStringPointer (UniqueKey plan),
      integrationRequestModel.DisplayName = ValueString (DisplayName plan),
      integrationRequestModel.NangoProvider = None,
      integrationRequestModel.Credentials =
        \<lparr>integrationCredentialsRequestModel.ClientId = ValueString (ClientId creds),
         integrationCredentialsRequestModel.ClientSecret = ValueString (ClientSecret creds),
         integrationCredentialsRequestModel.Type = ValueString (Type creds),
         integrationCredentialsRequestModel.Scopes = scopesString creds\<rparr>\<rparr>"

definition Create :: "runtime \<Rightarrow> integrationResource \<Rightarrow> integrationModel tfsdkData
    \<Rightarrow> integrationModel opResponse run" where
  "Create E r req =
     (let plan = GetValue req; diags = Append [] (GetDiags req) in
      if HasError diags
      then Returned \<lparr>Requests = [], Diagnostics = diags, State = None\<rparr>
      else case Credentials plan of
        None \<Rightarrow> Panicked
      | Some creds \<Rightarrow>
          (let requestBody = Marshal (createRequestModel plan creds) in
           case integrationResource.client r of
             None \<Rightarrow> Panicked
           | Some c \<Rightarrow>
               (case Post E c (baseURL c @ ''/integrations'') ''application/json'' requestBody of
                  (sent, Inl err) \<Rightarrow>
                    Returned \<lparr>Requests = sent,
                      Diagnostics = AddError diags ''Unable to Create Integration'' err,
                      State = None\<rparr>
                | (sent, Inr postResponse) \<Rightarrow>
                    (case Get E c (baseURL c @ ''/integrations/'' @ ValueString (UniqueKey plan)
                                     @ ''?include=webhook&include=credentials'') of
                       (sent', Inl gErr) \<Rightarrow>
                         Returned \<lparr>Requests = sent @ sent',
                           Diagnostics = AddError diags ''Unable to Get Integration'' gErr,
                           State = None\<rparr>
                     | (sent', Inr getResponse) \<Rightarrow>
                         (case decodeResponse2 E (Response.Body getResponse) of
                            Inl err \<Rightarrow>
                              Returned \<lparr>Requests = sent @ sent',
                                Diagnostics = AddError diags ''Unable to Decode JSON'' err,
                                State = None\<rparr>
                          | Inr integration \<Rightarrow>
                              Returned \<lparr>Requests = sent @ sent',
                                Diagnostics = diags,
                                State = Some (plan
                                  \<lparr>UniqueKey := StringValue (nangoIntegrationModel.UniqueKey (Data integration)),
                                   UpdatedAt := StringValue (nangoIntegrationModel.UpdatedAt (Data integration))\<rparr>)\<rparr>)))))"

definition Read :: "runtime \<Rightarrow> integrationResource \<Rightarrow> integrationModel tfsdkData
    \<Rightarrow> integrationModel opResponse run" where
  "Read E r req =
     (let state = GetValue req; diags = Append [] (GetDiags req) in
      if HasError diags
      then Returned \<lparr>Requests = [], Diagnostics = diags, State = None\<rparr>
      else case integrationResource.client r of
        None \<Rightarrow> Panicked
      | Some c \<Rightarrow>
          (case Get E c (baseURL c @ ''/integrations/'' @ ValueString (UniqueKey state)) of
             (sent, Inl err) \<Rightarrow>
               Returned \<lparr>Requests = sent,
                 Diagnostics = AddError diags ''Error Reading HashiCups Order''
                   (''Could not read HashiCups order ID '' @ ValueString (UniqueKey state) @ '': '' @ err),
                 State = None\<rparr>
           | (sent, Inr integrationResponse) \<Rightarrow>
               (case decodeModel E (Response.Body integrationResponse) of
                  Inl err \<Rightarrow>
                    Returned \<lparr>Requests = sent,
                      Diagnostics = AddError diags ''Unable to Decode JSON'' err,
                      State = None\<rparr>
                | Inr integrations \<Rightarrow>
                    Returned \<lparr>Requests = sent, Diagnostics = diags, State = Some state\<rparr>)))"

definition Update :: "runtime \<Rightarrow> integrationResource \<Rightarrow> integrationModel tfsdkData
    \<Rightarrow> integrationModel opResponse run" where
  "Update E r req =
     (let plan = GetValue req; diags = Append [] (GetDiags req) in
      if HasError diags
      then Returned \<lparr>Requests = [], Diagnostics = diags, State = None\<rparr>
      else case Credentials plan of
        None \<Rightarrow> Panicked
      | Some creds \<Rightarrow>
          (let requestBody = Marshal (updateRequestModel plan creds) in
           case integrationResource.client r of
             None \<Rightarrow> Panicked
           | Some c \<Rightarrow>
               (case NewRequest E ''PATCH'' (baseURL c @ ''/integrations/'' @ ValueString (UniqueKey plan))
                       (Some requestBody) of
                  Inl err \<Rightarrow>
                    Returned \<lparr>Requests = [],
                      Diagnostics = AddError diags ''Unable to Create Request'' err,
                      State = None\<rparr>
                | Inr req2 \<Rightarrow>
                    (let req2' = req2\<lparr>Header := Header_Set (Header req2) ''Content-Type'' ''application/json''\<rparr> in
                     case nangoClient.client c req2' of
                       Inl err \<Rightarrow>
                         Returned \<lparr>Requests = [req2'],
                           Diagnostics = AddError diags ''Unable to Update Integration'' err,
                           State = None\<rparr>
                     | Inr response \<Rightarrow>
                         (case decodeModel E (Response.Body response) of
                            Inl err \<Rightarrow>
                              Returned \<lparr>Requests = [req2'],
                                Diagnostics = AddError diags ''Unable to Decode JSON'' err,
                                State = None\<rparr>
                          | Inr integration \<Rightarrow>
                              (let plan1 =
                                     (if nangoIntegrationModel.DisplayName integration \<noteq> []
                                      then plan\<lparr>DisplayName := StringValue (nangoIntegrationModel.DisplayName integration)\<rparr>
                                      else plan);
                                   plan2 =
                                     (if nangoIntegrationModel.UpdatedAt integration \<noteq> []
                                      then plan1\<lparr>UpdatedAt := StringValue (nangoIntegrationModel.UpdatedAt integration)\<rparr>
                                      else plan1\<lparr>UpdatedAt := StringValue (now E)\<rparr>)
                               in Returned \<lparr>Requests = [req2'], Diagnostics = diags,
                                    State = Some plan2\<rparr>))))))"

definition Delete :: "runtime \<Rightarrow> integrationResource \<Rightarrow> integrationModel tfsdkData
    \<Rightarrow> integrationModel opResponse run" where
  "Delete E r req = Returned \<lparr>Requests = [], Diagnostics = [], State = None\<rparr>"

subsection \<open>The data source\<close>

record integrationDataSource =
  client :: "nangoClient option"

text \<open>The loop of lines 504 to 513: one model appended per element of the response.\<close>

fun appendIntegrations :: "integrationModel list \<Rightarrow> nangoIntegrationModel list \<Rightarrow> integrationModel list" where
  "appendIntegrations acc [] = acc"
| "appendIntegrations acc (integration # rest) =
     appendIntegrations
       (acc @ [\<lparr>UniqueKey = StringValue (nangoIntegrationModel.UniqueKey integration),
                DisplayName = StringValue (nangoIntegrationModel.DisplayName integration),
                NangoProvider = StringValue (nangoIntegrationModel.NangoProvider integration),
                UpdatedAt = StringValue (nangoIntegrationModel.UpdatedAt integration),
                Credentials = None\<rparr>])
       rest"

definition DataSourceRead :: "runtime \<Rightarrow> integrationDataSource \<Rightarrow> integrationDataSourceModel opResponse run" where
  "DataSourceRead E d =
     (case integrationDataSource.client d of
        None \<Rightarrow> Panicked
      | Some c \<Rightarrow>
          (case Get E c (baseURL c @ ''/integrations'') of
             (sent, Inl err) \<Rightarrow>
               Returned \<lparr>Requests = sent,
                 Diagnostics = AddError [] ''Unable to Read Integrations'' err,
                 State = None\<rparr>
           | (sent, Inr integrationsResponse) \<Rightarrow>
               (case decodeResponse E (Response.Body integrationsResponse) of
                  Inl err \<Rightarrow>
                    Returned \<lparr>Requests = sent,
                      Diagnostics = AddError [] ''Unable to Decode JSON'' err,
                      State = None\<rparr>
                | Inr integrations \<Rightarrow>
                    Returned \<lparr>Requests = sent, Diagnostics = [],
                      State = Some \<lparr>Integrations =
                        appendIntegrations [] (nangoIntegrationResponse.Data integrations)\<rparr>\<rparr>)))"

subsection \<open>Reading an outcome\<close>

text \<open>An operation succeeded when it returned and its diagnostics hold no error.\<close>

fun succeeded :: "'st opResponse run \<Rightarrow> bool" where
  "succeeded Panicked = False"
| "succeeded (Returned res) = (\<not> HasError (Diagnostics res))"

fun requestsOf :: "'st opResponse run \<Rightarrow> Request list" where
  "requestsOf Panicked = []"
| "requestsOf (Returned res) = Requests res"


fun stateOf :: "'st opResponse run \<Rightarrow> 'st option" where
  "stateOf Panicked = None"
| "stateOf (Returned res) = State res"




text \<open>
  Modelled from the spec: the code has no unflattening of scopes (no response model carries
  credentials, and no operation rebuilds the list from a wire value). Section 3 has the
  scopes comma-joined on the wire and reconstructed as a list on read; the pieces of a wire
  value are what stands between its commas.
\<close>

fun splitOn :: "char \<Rightarrow> string \<Rightarrow> string list" where
  "splitOn sep [] = [[]]"
| "splitOn sep (c # cs) =
     (if c = sep then [] # splitOn sep cs
      else (case splitOn sep cs of [] \<Rightarrow> [[c]] | w # ws \<Rightarrow> (c # w) # ws))"

text \<open>
  Modelled from the spec: the unflattening, absent from the code. Section 3 makes the empty
  string the wire value of the empty list, and section 8 gives
  \<^verbatim>\<open>unflatten("a,b") == ["a","b"]\<close> and \<^verbatim>\<open>unflatten("") == []\<close>: the empty string gives the
  empty list, any other string its pieces.
\<close>

definition unflatten :: "string \<Rightarrow> string list" where
  "unflatten wire = (if wire = [] then [] else splitOn (CHR '','') wire)"

text \<open>The members of a marshalled object: their names in order, and a member by name.\<close>

fun memberNames :: "json \<Rightarrow> string list" where
  "memberNames (JObject members) = map fst members"
| "memberNames (JString s) = []"

fun memberOf :: "json \<Rightarrow> string \<Rightarrow> json option" where
  "memberOf (JObject members) name = map_of members name"
| "memberOf (JString s) name = None"

fun dropMember :: "string \<Rightarrow> json \<Rightarrow> json" where
  "dropMember name (JObject members) = JObject (filter (\<lambda>m. fst m \<noteq> name) members)"
| "dropMember name (JString s) = JString s"

subsection \<open>Sample inputs\<close>

text \<open>
  The plan of the specification's example, the state it becomes, and four response bodies
  with what \<^verbatim>\<open>encoding/json\<close> decodes them to: members that name no field of the target are
  skipped, and a field without a member keeps its zero value. The sample runtime reports any
  other body as undecodable, parses every URL and reads a fixed clock.
\<close>

definition examplePlan :: integrationModel where
  "examplePlan =
     \<lparr>UniqueKey = StringValue ''gh1'',
      DisplayName = StringValue ''GitHub'',
      NangoProvider = StringValue ''github'',
      UpdatedAt = StringUnknown,
      Credentials = Some
        \<lparr>ClientId = StringValue ''x'',
         ClientSecret = StringValue ''y'',
         Type = StringValue ''OAUTH2'',
         Scopes = ListValue [StringValue ''repo'']\<rparr>\<rparr>"

definition exampleState :: integrationModel where
  "exampleState = examplePlan\<lparr>UpdatedAt := StringValue ''2024-05-01T10:00:00Z''\<rparr>"

definition bodyCreated :: string where
  \<open>bodyCreated =
     ''{"data":{"unique_key":"gh1","display_name":"GitHub","provider":"github","updated_at":"2024-05-01T10:00:00Z"}}''\<close>

definition bodyDrifted :: string where
  \<open>bodyDrifted =
     ''{"data":{"unique_key":"gh1","display_name":"GitHub Enterprise","provider":"github-app","updated_at":"2024-06-01T08:30:00Z"}}''\<close>

definition bodyRenamed :: string where
  \<open>bodyRenamed =
     ''{"unique_key":"gh1","display_name":"GitHub Enterprise","provider":"github","updated_at":"2024-06-01T08:30:00Z"}''\<close>

definition bodyNotFound :: string where
  \<open>bodyNotFound = ''{"error":"not found"}''\<close>

definition bodyList :: string where
  \<open>bodyList =
     ''{"data":[{"unique_key":"gh1","display_name":"GitHub","provider":"github","updated_at":"2024-05-01T10:00:00Z"},{"unique_key":"sl1","display_name":"Slack","provider":"slack","updated_at":"2024-05-02T11:00:00Z"}]}''\<close>

definition zeroModel :: nangoIntegrationModel where
  "zeroModel = \<lparr>nangoIntegrationModel.UniqueKey = [], nangoIntegrationModel.DisplayName = [], nangoIntegrationModel.NangoProvider = [], nangoIntegrationModel.UpdatedAt = []\<rparr>"

definition exampleRuntime :: runtime where
  "exampleRuntime =
     \<lparr>urlError = (\<lambda>url. None),
      decodeModel = (\<lambda>body.
        if body = bodyRenamed
        then Inr \<lparr>nangoIntegrationModel.UniqueKey = ''gh1'', nangoIntegrationModel.DisplayName = ''GitHub Enterprise'',
                  nangoIntegrationModel.NangoProvider = ''github'', nangoIntegrationModel.UpdatedAt = ''2024-06-01T08:30:00Z''\<rparr>
        else if body = bodyNotFound then Inr zeroModel
        else Inl ''invalid character''),
      decodeResponse2 = (\<lambda>body.
        if body = bodyCreated
        then Inr \<lparr>nanogoIntegrationResponse2.Data = \<lparr>nangoIntegrationModel.UniqueKey = ''gh1'', nangoIntegrationModel.DisplayName = ''GitHub'',
                  nangoIntegrationModel.NangoProvider = ''github'', nangoIntegrationModel.UpdatedAt = ''2024-05-01T10:00:00Z''\<rparr>\<rparr>
        else if body = bodyDrifted
        then Inr \<lparr>nanogoIntegrationResponse2.Data = \<lparr>nangoIntegrationModel.UniqueKey = ''gh1'', nangoIntegrationModel.DisplayName = ''GitHub Enterprise'',
                  nangoIntegrationModel.NangoProvider = ''github-app'', nangoIntegrationModel.UpdatedAt = ''2024-06-01T08:30:00Z''\<rparr>\<rparr>
        else if body = bodyNotFound then Inr \<lparr>nanogoIntegrationResponse2.Data = zeroModel\<rparr>
        else Inl ''invalid character''),
      decodeResponse = (\<lambda>body.
        if body = bodyList
        then Inr \<lparr>nangoIntegrationResponse.Data =
               [\<lparr>nangoIntegrationModel.UniqueKey = ''gh1'', nangoIntegrationModel.DisplayName = ''GitHub'',
                 nangoIntegrationModel.NangoProvider = ''github'', nangoIntegrationModel.UpdatedAt = ''2024-05-01T10:00:00Z''\<rparr>,
                \<lparr>nangoIntegrationModel.UniqueKey = ''sl1'', nangoIntegrationModel.DisplayName = ''Slack'',
                 nangoIntegrationModel.NangoProvider = ''slack'', nangoIntegrationModel.UpdatedAt = ''2024-05-02T11:00:00Z''\<rparr>]\<rparr>
        else if body = bodyNotFound then Inr \<lparr>nangoIntegrationResponse.Data = []\<rparr>
        else Inl ''invalid character''),
      now = ''2024-07-01T12:00:00Z''\<rparr>"

text \<open>A server that answers every request with the same status and body.\<close>

definition exampleClient :: "int \<Rightarrow> string \<Rightarrow> nangoClient" where
  "exampleClient status body =
     \<lparr>nangoClient.client = (\<lambda>req. Inr \<lparr>StatusCode = status, Response.Body = body\<rparr>),
      baseURL = ''https://api.nango.dev''\<rparr>"



section \<open>Properties\<close>

subsection \<open>Diagnostics, client calls and the sample inputs\<close>

lemma HasError_iff: "HasError ds \<longleftrightarrow> (\<exists>s d. ErrorDiagnostic s d \<in> set ds)"
  by (induction ds rule: HasError.induct) auto



lemma HasError_AddError: "HasError (AddError ds s d)"
  by (auto simp: AddError_def HasError_iff)

lemma Get_Inr:
  "Get E c url = (sent, Inr resp) \<Longrightarrow>
     sent = [\<lparr>Method = ''GET'', URL = url, Header = Map.empty, Request.Body = None\<rparr>] \<and>
     nangoClient.client c \<lparr>Method = ''GET'', URL = url, Header = Map.empty, Request.Body = None\<rparr> = Inr resp"
  by (auto simp: Get_def NewRequest_def split: option.splits)

lemma Post_Inr:
  "Post E c url bodyType body = (sent, Inr resp) \<Longrightarrow>
     sent = [\<lparr>Method = ''POST'', URL = url, Header = [''Content-Type'' \<mapsto> [bodyType]], Request.Body = Some body\<rparr>] \<and>
     nangoClient.client c \<lparr>Method = ''POST'', URL = url, Header = [''Content-Type'' \<mapsto> [bodyType]], Request.Body = Some body\<rparr> = Inr resp"
  by (auto simp: Post_def NewRequest_def Header_Set_def Let_def split: option.splits)

lemma succeeded_Returned: "succeeded x \<Longrightarrow> \<exists>res. x = Returned res \<and> \<not> HasError (Diagnostics res)"
  by (cases x) auto

text \<open>
  Unfolding the sample inputs, and the helpers every operation goes through.
\<close>

lemmas example_defs =
  exampleRuntime_def exampleClient_def examplePlan_def exampleState_def zeroModel_def
  bodyCreated_def bodyDrifted_def bodyRenamed_def bodyNotFound_def bodyList_def

lemmas op_defs =
  Post_def Get_def NewRequest_def Header_Set_def AddError_def Let_def

subsection \<open>Delete\<close>

text \<open>
  C2. Every Delete returns at once: it hands no request to the HTTP client and its
  diagnostics are empty, whatever the incoming state.
\<close>

theorem Delete_issues_nothing:
  "Delete E r req = Returned \<lparr>Requests = [], Diagnostics = [], State = None\<rparr> \<and>
   requestsOf (Delete E r req) = [] \<and> succeeded (Delete E r req)"
  by (simp add: Delete_def)

subsection \<open>Create\<close>

text \<open>
  A Create that returns without an error diagnostic went through every step: both client
  calls answered and the body of the second decoded.
\<close>

lemma Create_succeeded_cases:
  assumes "Create E r req = Returned res" and "\<not> HasError (Diagnostics res)"
  obtains c creds sent postResponse sent' getResponse integration where
    "integrationResource.client r = Some c"
    "Credentials (GetValue req) = Some creds"
    "Post E c (baseURL c @ ''/integrations'') ''application/json''
        (Marshal (createRequestModel (GetValue req) creds)) = (sent, Inr postResponse)"
    "Get E c (baseURL c @ ''/integrations/'' @ ValueString (UniqueKey (GetValue req))
        @ ''?include=webhook&include=credentials'') = (sent', Inr getResponse)"
    "decodeResponse2 E (Response.Body getResponse) = Inr integration"
    "res = \<lparr>Requests = sent @ sent', Diagnostics = Append [] (GetDiags req),
       State = Some ((GetValue req)
         \<lparr>UniqueKey := StringValue (nangoIntegrationModel.UniqueKey (Data integration)),
          UpdatedAt := StringValue (nangoIntegrationModel.UpdatedAt (Data integration))\<rparr>)\<rparr>"
  using assms
  by (auto simp: Create_def Let_def HasError_AddError split: if_splits option.splits prod.splits sum.splits)

text \<open>
  C4, as amended. For a plan with unique key \<open>k\<close>, a Create that succeeds has handed exactly
  two requests to the client, a POST to \<open>baseURL/integrations\<close> and then a GET to
  \<open>baseURL/integrations/k?include=webhook&include=credentials\<close>, and the unique key and the
  update time of the state it writes are those decoded from the body of the GET response.
  With the example plan the state therefore has unique key \<open>gh1\<close> and a non-empty update
  time when the GET response carries them.
\<close>

theorem Create_posts_then_gets:
  assumes "UniqueKey (GetValue req) = StringValue k"
      and "succeeded (Create E r req)"
  shows "\<exists>c post get getResponse integration s.
           integrationResource.client r = Some c \<and>
           requestsOf (Create E r req) = [post, get] \<and>
           Method post = ''POST'' \<and> URL post = baseURL c @ ''/integrations'' \<and>
           Method get = ''GET'' \<and>
           URL get = baseURL c @ ''/integrations/'' @ k @ ''?include=webhook&include=credentials'' \<and>
           nangoClient.client c get = Inr getResponse \<and>
           decodeResponse2 E (Response.Body getResponse) = Inr integration \<and>
           stateOf (Create E r req) = Some s \<and>
           UniqueKey s = StringValue (nangoIntegrationModel.UniqueKey (Data integration)) \<and>
           UpdatedAt s = StringValue (nangoIntegrationModel.UpdatedAt (Data integration))"
proof -
  from assms(2) obtain res where res: "Create E r req = Returned res" "\<not> HasError (Diagnostics res)"
    using succeeded_Returned by blast
  from res show ?thesis
  proof (rule Create_succeeded_cases)
    fix c creds sent postResponse sent' getResponse integration
    assume c: "integrationResource.client r = Some c"
      and post: "Post E c (baseURL c @ ''/integrations'') ''application/json''
        (Marshal (createRequestModel (GetValue req) creds)) = (sent, Inr postResponse)"
      and get: "Get E c (baseURL c @ ''/integrations/'' @ ValueString (UniqueKey (GetValue req))
        @ ''?include=webhook&include=credentials'') = (sent', Inr getResponse)"
      and dec: "decodeResponse2 E (Response.Body getResponse) = Inr integration"
      and r: "res = \<lparr>Requests = sent @ sent', Diagnostics = Append [] (GetDiags req),
       State = Some ((GetValue req)
         \<lparr>UniqueKey := StringValue (nangoIntegrationModel.UniqueKey (Data integration)),
          UpdatedAt := StringValue (nangoIntegrationModel.UpdatedAt (Data integration))\<rparr>)\<rparr>"
    note P = Post_Inr [OF post] and G = Get_Inr [OF get]
    show ?thesis
      using c dec P G assms(1) by (simp add: res(1) r)
  qed
qed

text \<open>
  The example plan against a server that returns the created integration: a POST, a GET,
  and a state with unique key \<open>gh1\<close> and the server's update time.
\<close>

theorem Create_posts_then_gets_witness:
  "UniqueKey (GetValue \<lparr>GetDiags = [], GetValue = examplePlan\<rparr>) = StringValue ''gh1'' \<and>
   succeeded (Create exampleRuntime \<lparr>integrationResource.client = Some (exampleClient 200 bodyCreated)\<rparr>
      \<lparr>GetDiags = [], GetValue = examplePlan\<rparr>) \<and>
   map Method (requestsOf (Create exampleRuntime \<lparr>integrationResource.client = Some (exampleClient 200 bodyCreated)\<rparr>
      \<lparr>GetDiags = [], GetValue = examplePlan\<rparr>)) = [''POST'', ''GET''] \<and>
   map URL (requestsOf (Create exampleRuntime \<lparr>integrationResource.client = Some (exampleClient 200 bodyCreated)\<rparr>
      \<lparr>GetDiags = [], GetValue = examplePlan\<rparr>)) =
     [''https://api.nango.dev/integrations'',
      ''https://api.nango.dev/integrations/gh1?include=webhook&include=credentials''] \<and>
   map_option UniqueKey (stateOf (Create exampleRuntime \<lparr>integrationResource.client = Some (exampleClient 200 bodyCreated)\<rparr>
      \<lparr>GetDiags = [], GetValue = examplePlan\<rparr>)) = Some (StringValue ''gh1'') \<and>
   map_option UpdatedAt (stateOf (Create exampleRuntime \<lparr>integrationResource.client = Some (exampleClient 200 bodyCreated)\<rparr>
      \<lparr>GetDiags = [], GetValue = examplePlan\<rparr>)) = Some (StringValue ''2024-05-01T10:00:00Z'')"
proof -
  have h1: "UniqueKey (GetValue \<lparr>GetDiags = [], GetValue = examplePlan\<rparr>) = StringValue ''gh1''"
    by (simp add: examplePlan_def)
  have h2: "succeeded (Create exampleRuntime \<lparr>integrationResource.client = Some (exampleClient 200 bodyCreated)\<rparr>
      \<lparr>GetDiags = [], GetValue = examplePlan\<rparr>)"
    by (simp add: Create_def op_defs example_defs)
  show ?thesis
    using Create_posts_then_gets [OF h1 h2] h1 h2
    by (auto simp: exampleClient_def exampleRuntime_def bodyCreated_def bodyNotFound_def)
qed

text \<open>
  C4 as stated fails: the server answers the requests of the example plan with status 404
  and a body that decodes, Create succeeds, and the state has an empty unique key and an
  empty update time.
\<close>

theorem Create_example_state_counterexample:
  "succeeded (Create exampleRuntime \<lparr>integrationResource.client = Some (exampleClient 404 bodyNotFound)\<rparr>
      \<lparr>GetDiags = [], GetValue = examplePlan\<rparr>) \<and>
   stateOf (Create exampleRuntime \<lparr>integrationResource.client = Some (exampleClient 404 bodyNotFound)\<rparr>
      \<lparr>GetDiags = [], GetValue = examplePlan\<rparr>) =
     Some (examplePlan\<lparr>UniqueKey := StringValue [], UpdatedAt := StringValue []\<rparr>) \<and>
   StringValue [] \<noteq> StringValue ''gh1''"
  by (simp add: Create_def op_defs example_defs)

text \<open>
  C10. A Create that succeeds writes the plan with two fields replaced, the unique key and
  the update time decoded from the GET response; the display name, the provider and the
  credentials of the state are those of the plan, whatever the server returned for them.
\<close>

theorem Create_keeps_planned_fields:
  assumes "succeeded (Create E r req)"
  shows "\<exists>c getResponse integration s.
           integrationResource.client r = Some c \<and>
           nangoClient.client c
             \<lparr>Method = ''GET'',
              URL = baseURL c @ ''/integrations/'' @ ValueString (UniqueKey (GetValue req))
                      @ ''?include=webhook&include=credentials'',
              Header = Map.empty, Request.Body = None\<rparr> = Inr getResponse \<and>
           decodeResponse2 E (Response.Body getResponse) = Inr integration \<and>
           stateOf (Create E r req) = Some s \<and>
           s = (GetValue req)
                 \<lparr>UniqueKey := StringValue (nangoIntegrationModel.UniqueKey (Data integration)),
                  UpdatedAt := StringValue (nangoIntegrationModel.UpdatedAt (Data integration))\<rparr> \<and>
           DisplayName s = DisplayName (GetValue req) \<and>
           NangoProvider s = NangoProvider (GetValue req) \<and>
           Credentials s = Credentials (GetValue req)"
proof -
  from assms obtain res where res: "Create E r req = Returned res" "\<not> HasError (Diagnostics res)"
    using succeeded_Returned by blast
  from res show ?thesis
  proof (rule Create_succeeded_cases)
    fix c creds sent postResponse sent' getResponse integration
    assume c: "integrationResource.client r = Some c"
      and get: "Get E c (baseURL c @ ''/integrations/'' @ ValueString (UniqueKey (GetValue req))
        @ ''?include=webhook&include=credentials'') = (sent', Inr getResponse)"
      and dec: "decodeResponse2 E (Response.Body getResponse) = Inr integration"
      and r: "res = \<lparr>Requests = sent @ sent', Diagnostics = Append [] (GetDiags req),
       State = Some ((GetValue req)
         \<lparr>UniqueKey := StringValue (nangoIntegrationModel.UniqueKey (Data integration)),
          UpdatedAt := StringValue (nangoIntegrationModel.UpdatedAt (Data integration))\<rparr>)\<rparr>"
    note G = Get_Inr [OF get]
    show ?thesis
      using c dec G by (simp add: res(1) r)
  qed
qed

text \<open>
  The server returns another display name and another provider than planned; the state
  keeps the planned ones.
\<close>

theorem Create_keeps_planned_fields_witness:
  "succeeded (Create exampleRuntime \<lparr>integrationResource.client = Some (exampleClient 200 bodyDrifted)\<rparr>
      \<lparr>GetDiags = [], GetValue = examplePlan\<rparr>) \<and>
   stateOf (Create exampleRuntime \<lparr>integrationResource.client = Some (exampleClient 200 bodyDrifted)\<rparr>
      \<lparr>GetDiags = [], GetValue = examplePlan\<rparr>) =
     Some (examplePlan\<lparr>UniqueKey := StringValue ''gh1'', UpdatedAt := StringValue ''2024-06-01T08:30:00Z''\<rparr>) \<and>
   map_sum id (\<lambda>integration. nangoIntegrationModel.DisplayName (Data integration))
     (decodeResponse2 exampleRuntime bodyDrifted) = Inr ''GitHub Enterprise'' \<and>
   DisplayName examplePlan = StringValue ''GitHub''"
proof -
  have h: "succeeded (Create exampleRuntime \<lparr>integrationResource.client = Some (exampleClient 200 bodyDrifted)\<rparr>
      \<lparr>GetDiags = [], GetValue = examplePlan\<rparr>)"
    by (simp add: Create_def op_defs example_defs)
  show ?thesis
    using Create_keeps_planned_fields [OF h] h
    by (auto simp: example_defs)
qed

subsection \<open>Read\<close>

text \<open>
  Whatever the response, a state written by Read is the state it was given.
\<close>

lemma Read_state_unchanged:
  "stateOf (Read E r req) = None \<or> stateOf (Read E r req) = Some (GetValue req)"
  by (auto simp: Read_def Let_def split: option.splits prod.splits sum.splits)

text \<open>
  C1. The claim asks a Read whose GET succeeds and whose body decodes to overwrite the
  display name, the provider, the update time and the credentials with the decoded values.
  The code decodes the response and writes back the prior state: here the response decodes
  to the display name \<open>GitHub Enterprise\<close> and a later update time, and the state keeps
  \<open>GitHub\<close> and the earlier time.
\<close>

theorem Read_leaves_state_stale:
  "succeeded (Read exampleRuntime \<lparr>integrationResource.client = Some (exampleClient 200 bodyRenamed)\<rparr>
      \<lparr>GetDiags = [], GetValue = exampleState\<rparr>) \<and>
   map_sum id nangoIntegrationModel.DisplayName (decodeModel exampleRuntime bodyRenamed) = Inr ''GitHub Enterprise'' \<and>
   map_sum id nangoIntegrationModel.UpdatedAt (decodeModel exampleRuntime bodyRenamed) = Inr ''2024-06-01T08:30:00Z'' \<and>
   stateOf (Read exampleRuntime \<lparr>integrationResource.client = Some (exampleClient 200 bodyRenamed)\<rparr>
      \<lparr>GetDiags = [], GetValue = exampleState\<rparr>) = Some exampleState \<and>
   DisplayName exampleState = StringValue ''GitHub'' \<and>
   UpdatedAt exampleState = StringValue ''2024-05-01T10:00:00Z''"
  by (simp add: Read_def op_defs example_defs)

subsection \<open>Update\<close>

text \<open>
  The only request of an Update is its PATCH, and a successful Update went through every step.
\<close>

lemma Update_requests:
  assumes "q \<in> set (requestsOf (Update E r req))"
  obtains c creds where
    "integrationResource.client r = Some c"
    "Credentials (GetValue req) = Some creds"
    "q = \<lparr>Method = ''PATCH'',
          URL = baseURL c @ ''/integrations/'' @ ValueString (UniqueKey (GetValue req)),
          Header = [''Content-Type'' \<mapsto> [''application/json'']],
          Request.Body = Some (Marshal (updateRequestModel (GetValue req) creds))\<rparr>"
  using assms
  by (auto simp: Update_def Let_def NewRequest_def Header_Set_def
           split: if_splits option.splits sum.splits)

lemma Update_succeeded_cases:
  assumes "Update E r req = Returned res" and "\<not> HasError (Diagnostics res)"
  obtains c creds response integration where
    "integrationResource.client r = Some c"
    "Credentials (GetValue req) = Some creds"
    "nangoClient.client c
       \<lparr>Method = ''PATCH'',
        URL = baseURL c @ ''/integrations/'' @ ValueString (UniqueKey (GetValue req)),
        Header = [''Content-Type'' \<mapsto> [''application/json'']],
        Request.Body = Some (Marshal (updateRequestModel (GetValue req) creds))\<rparr> = Inr response"
    "decodeModel E (Response.Body response) = Inr integration"
    "Requests res =
       [\<lparr>Method = ''PATCH'',
         URL = baseURL c @ ''/integrations/'' @ ValueString (UniqueKey (GetValue req)),
         Header = [''Content-Type'' \<mapsto> [''application/json'']],
         Request.Body = Some (Marshal (updateRequestModel (GetValue req) creds))\<rparr>]"
    "State res = Some ((GetValue req)
       \<lparr>DisplayName :=
          (if nangoIntegrationModel.DisplayName integration \<noteq> []
           then StringValue (nangoIntegrationModel.DisplayName integration)
           else DisplayName (GetValue req)),
        UpdatedAt :=
          (if nangoIntegrationModel.UpdatedAt integration \<noteq> []
           then StringValue (nangoIntegrationModel.UpdatedAt integration)
           else StringValue (now E))\<rparr>)"
  using assms
  by (auto simp: Update_def Let_def NewRequest_def Header_Set_def HasError_AddError
           split: if_splits option.splits sum.splits)

text \<open>
  C6. The body of the PATCH request of an Update has no \<open>provider\<close> member. It is the
  create payload of the same plan without that member: the unique key (as in the create
  payload, written unless the plan's unique key is null, which the schema excludes), the
  display name, and the whole credentials block.
\<close>

theorem Update_payload_omits_provider:
  assumes "q \<in> set (requestsOf (Update E r req))"
  shows "\<exists>creds body.
           Credentials (GetValue req) = Some creds \<and>
           Method q = ''PATCH'' \<and>
           Request.Body q = Some body \<and>
           ''provider'' \<notin> set (memberNames body) \<and>
           body = dropMember ''provider'' (Marshal (createRequestModel (GetValue req) creds)) \<and>
           memberNames body =
             (case ValueStringPointer (UniqueKey (GetValue req)) of
                None \<Rightarrow> [] | Some k \<Rightarrow> [''unique_key'']) @ [''display_name'', ''credentials''] \<and>
           memberOf body ''unique_key'' =
             map_option JString (ValueStringPointer (UniqueKey (GetValue req))) \<and>
           memberOf body ''display_name'' =
             Some (JString (ValueString (DisplayName (GetValue req)))) \<and>
           memberOf body ''credentials'' =
             Some (JObject
               [(''client_id'', JString (ValueString (ClientId creds))),
                (''client_secret'', JString (ValueString (ClientSecret creds))),
                (''type'', JString (ValueString (Type creds))),
                (''scopes'', JString (scopesString creds))])"
  using assms
proof (rule Update_requests)
  fix c creds
  assume creds: "Credentials (GetValue req) = Some creds"
    and q: "q = \<lparr>Method = ''PATCH'',
          URL = baseURL c @ ''/integrations/'' @ ValueString (UniqueKey (GetValue req)),
          Header = [''Content-Type'' \<mapsto> [''application/json'']],
          Request.Body = Some (Marshal (updateRequestModel (GetValue req) creds))\<rparr>"
  show ?thesis
    using creds
    by (simp add: q Marshal_def MarshalCredentials_def updateRequestModel_def createRequestModel_def
             split: option.splits)
qed

text \<open>
  The PATCH of the example: three members, against the four of the create payload.
\<close>

theorem Update_payload_omits_provider_witness:
  "requestsOf (Update exampleRuntime \<lparr>integrationResource.client = Some (exampleClient 200 bodyRenamed)\<rparr>
      \<lparr>GetDiags = [], GetValue = exampleState\<rparr>) =
     [\<lparr>Method = ''PATCH'', URL = ''https://api.nango.dev/integrations/gh1'',
       Header = [''Content-Type'' \<mapsto> [''application/json'']],
       Request.Body = Some (JObject
         [(''unique_key'', JString ''gh1''),
          (''display_name'', JString ''GitHub''),
          (''credentials'', JObject
             [(''client_id'', JString ''x''), (''client_secret'', JString ''y''),
              (''type'', JString ''OAUTH2''), (''scopes'', JString ''repo'')])])\<rparr>] \<and>
   Marshal (createRequestModel exampleState
      \<lparr>ClientId = StringValue ''x'', ClientSecret = StringValue ''y'',
       Type = StringValue ''OAUTH2'', Scopes = ListValue [StringValue ''repo'']\<rparr>) =
     JObject
         [(''unique_key'', JString ''gh1''),
          (''display_name'', JString ''GitHub''),
          (''provider'', JString ''github''),
          (''credentials'', JObject
             [(''client_id'', JString ''x''), (''client_secret'', JString ''y''),
              (''type'', JString ''OAUTH2''), (''scopes'', JString ''repo'')])]"
proof -
  let ?q = "\<lparr>Method = ''PATCH'', URL = ''https://api.nango.dev/integrations/gh1'',
       Header = [''Content-Type'' \<mapsto> [''application/json'']],
       Request.Body = Some (JObject
         [(''unique_key'', JString ''gh1''),
          (''display_name'', JString ''GitHub''),
          (''credentials'', JObject
             [(''client_id'', JString ''x''), (''client_secret'', JString ''y''),
              (''type'', JString ''OAUTH2''), (''scopes'', JString ''repo'')])])\<rparr>"
  have run: "requestsOf (Update exampleRuntime \<lparr>integrationResource.client = Some (exampleClient 200 bodyRenamed)\<rparr>
      \<lparr>GetDiags = [], GetValue = exampleState\<rparr>) = [?q]"
    by (simp add: Update_def op_defs example_defs updateRequestModel_def Marshal_def
          MarshalCredentials_def scopesString_def)
  then have h: "?q \<in> set (requestsOf (Update exampleRuntime
      \<lparr>integrationResource.client = Some (exampleClient 200 bodyRenamed)\<rparr>
      \<lparr>GetDiags = [], GetValue = exampleState\<rparr>))"
    by simp
  show ?thesis
    using Update_payload_omits_provider [OF h] run
    by (simp add: example_defs createRequestModel_def Marshal_def MarshalCredentials_def scopesString_def)
qed

text \<open>
  C7. After a successful Update the display name of the state is the one of the response
  when that is non-empty, else the planned one; the update time is the one of the response
  when that is non-empty, else the current time.
\<close>

theorem Update_state_from_response:
  assumes "succeeded (Update E r req)"
  shows "\<exists>c patch response integration s.
           integrationResource.client r = Some c \<and>
           requestsOf (Update E r req) = [patch] \<and>
           Method patch = ''PATCH'' \<and>
           URL patch = baseURL c @ ''/integrations/'' @ ValueString (UniqueKey (GetValue req)) \<and>
           nangoClient.client c patch = Inr response \<and>
           decodeModel E (Response.Body response) = Inr integration \<and>
           stateOf (Update E r req) = Some s \<and>
           DisplayName s =
             (if nangoIntegrationModel.DisplayName integration \<noteq> []
              then StringValue (nangoIntegrationModel.DisplayName integration)
              else DisplayName (GetValue req)) \<and>
           UpdatedAt s =
             (if nangoIntegrationModel.UpdatedAt integration \<noteq> []
              then StringValue (nangoIntegrationModel.UpdatedAt integration)
              else StringValue (now E))"
proof -
  from assms obtain res where res: "Update E r req = Returned res" "\<not> HasError (Diagnostics res)"
    using succeeded_Returned by blast
  from res show ?thesis
  proof (rule Update_succeeded_cases)
    fix c creds response integration
    assume "integrationResource.client r = Some c"
      and "nangoClient.client c
       \<lparr>Method = ''PATCH'',
        URL = baseURL c @ ''/integrations/'' @ ValueString (UniqueKey (GetValue req)),
        Header = [''Content-Type'' \<mapsto> [''application/json'']],
        Request.Body = Some (Marshal (updateRequestModel (GetValue req) creds))\<rparr> = Inr response"
      and "decodeModel E (Response.Body response) = Inr integration"
      and "Requests res =
       [\<lparr>Method = ''PATCH'',
         URL = baseURL c @ ''/integrations/'' @ ValueString (UniqueKey (GetValue req)),
         Header = [''Content-Type'' \<mapsto> [''application/json'']],
         Request.Body = Some (Marshal (updateRequestModel (GetValue req) creds))\<rparr>]"
      and "State res = Some ((GetValue req)
       \<lparr>DisplayName :=
          (if nangoIntegrationModel.DisplayName integration \<noteq> []
           then StringValue (nangoIntegrationModel.DisplayName integration)
           else DisplayName (GetValue req)),
        UpdatedAt :=
          (if nangoIntegrationModel.UpdatedAt integration \<noteq> []
           then StringValue (nangoIntegrationModel.UpdatedAt integration)
           else StringValue (now E))\<rparr>)"
    then show ?thesis
      by (simp add: res(1))
  qed
qed

text \<open>
  A response that carries both fields, and a response that carries neither: the second
  leaves the planned display name and stamps the clock's time.
\<close>

theorem Update_state_from_response_witness:
  "succeeded (Update exampleRuntime \<lparr>integrationResource.client = Some (exampleClient 200 bodyRenamed)\<rparr>
      \<lparr>GetDiags = [], GetValue = exampleState\<rparr>) \<and>
   stateOf (Update exampleRuntime \<lparr>integrationResource.client = Some (exampleClient 200 bodyRenamed)\<rparr>
      \<lparr>GetDiags = [], GetValue = exampleState\<rparr>) =
     Some (exampleState\<lparr>DisplayName := StringValue ''GitHub Enterprise'',
                         UpdatedAt := StringValue ''2024-06-01T08:30:00Z''\<rparr>) \<and>
   succeeded (Update exampleRuntime \<lparr>integrationResource.client = Some (exampleClient 200 bodyNotFound)\<rparr>
      \<lparr>GetDiags = [], GetValue = exampleState\<rparr>) \<and>
   stateOf (Update exampleRuntime \<lparr>integrationResource.client = Some (exampleClient 200 bodyNotFound)\<rparr>
      \<lparr>GetDiags = [], GetValue = exampleState\<rparr>) =
     Some (exampleState\<lparr>UpdatedAt := StringValue (now exampleRuntime)\<rparr>)"
proof -
  have h: "succeeded (Update exampleRuntime \<lparr>integrationResource.client = Some (exampleClient 200 bodyRenamed)\<rparr>
      \<lparr>GetDiags = [], GetValue = exampleState\<rparr>)"
    by (simp add: Update_def op_defs example_defs)
  have h': "succeeded (Update exampleRuntime \<lparr>integrationResource.client = Some (exampleClient 200 bodyNotFound)\<rparr>
      \<lparr>GetDiags = [], GetValue = exampleState\<rparr>)"
    by (simp add: Update_def op_defs example_defs)
  have s: "stateOf (Update exampleRuntime \<lparr>integrationResource.client = Some (exampleClient 200 bodyRenamed)\<rparr>
      \<lparr>GetDiags = [], GetValue = exampleState\<rparr>) =
     Some (exampleState\<lparr>DisplayName := StringValue ''GitHub Enterprise'',
                         UpdatedAt := StringValue ''2024-06-01T08:30:00Z''\<rparr>)"
    by (simp add: Update_def op_defs example_defs)
  have s': "stateOf (Update exampleRuntime \<lparr>integrationResource.client = Some (exampleClient 200 bodyNotFound)\<rparr>
      \<lparr>GetDiags = [], GetValue = exampleState\<rparr>) =
     Some (exampleState\<lparr>UpdatedAt := StringValue (now exampleRuntime)\<rparr>)"
    by (simp add: Update_def op_defs example_defs)
  show ?thesis
    using Update_state_from_response [OF h] Update_state_from_response [OF h'] h h' s s'
    by simp
qed

subsection \<open>The data source\<close>

lemma appendIntegrations_map:
  "appendIntegrations acc integrations =
     acc @ map (\<lambda>integration.
       \<lparr>UniqueKey = StringValue (nangoIntegrationModel.UniqueKey integration),
        DisplayName = StringValue (nangoIntegrationModel.DisplayName integration),
        NangoProvider = StringValue (nangoIntegrationModel.NangoProvider integration),
        UpdatedAt = StringValue (nangoIntegrationModel.UpdatedAt integration),
        Credentials = None\<rparr>) integrations"
  by (induction integrations arbitrary: acc) simp_all

lemma DataSourceRead_succeeded_cases:
  assumes "DataSourceRead E d = Returned res" and "\<not> HasError (Diagnostics res)"
  obtains c sent response integrations where
    "integrationDataSource.client d = Some c"
    "Get E c (baseURL c @ ''/integrations'') = (sent, Inr response)"
    "decodeResponse E (Response.Body response) = Inr integrations"
    "res = \<lparr>Requests = sent, Diagnostics = [],
       State = Some \<lparr>Integrations =
         appendIntegrations [] (nangoIntegrationResponse.Data integrations)\<rparr>\<rparr>"
  using assms
  by (auto simp: DataSourceRead_def HasError_AddError split: option.splits prod.splits sum.splits)

text \<open>
  C9. A data-source Read whose GET succeeds and whose body decodes to \<open>n\<close> elements writes
  \<open>n\<close> integrations in the order of the response, each with the unique key, display name,
  provider and update time of its element and without credentials.
\<close>

theorem DataSourceRead_lists_in_order:
  assumes "succeeded (DataSourceRead E d)"
  shows "\<exists>c get response integrations s.
           integrationDataSource.client d = Some c \<and>
           requestsOf (DataSourceRead E d) = [get] \<and>
           Method get = ''GET'' \<and> URL get = baseURL c @ ''/integrations'' \<and>
           nangoClient.client c get = Inr response \<and>
           decodeResponse E (Response.Body response) = Inr integrations \<and>
           stateOf (DataSourceRead E d) = Some s \<and>
           length (Integrations s) = length (nangoIntegrationResponse.Data integrations) \<and>
           Integrations s =
             map (\<lambda>integration.
               \<lparr>UniqueKey = StringValue (nangoIntegrationModel.UniqueKey integration),
                DisplayName = StringValue (nangoIntegrationModel.DisplayName integration),
                NangoProvider = StringValue (nangoIntegrationModel.NangoProvider integration),
                UpdatedAt = StringValue (nangoIntegrationModel.UpdatedAt integration),
                Credentials = None\<rparr>) (nangoIntegrationResponse.Data integrations) \<and>
           (\<forall>i < length (nangoIntegrationResponse.Data integrations).
              UniqueKey (Integrations s ! i) =
                StringValue (nangoIntegrationModel.UniqueKey (nangoIntegrationResponse.Data integrations ! i)) \<and>
              DisplayName (Integrations s ! i) =
                StringValue (nangoIntegrationModel.DisplayName (nangoIntegrationResponse.Data integrations ! i)) \<and>
              NangoProvider (Integrations s ! i) =
                StringValue (nangoIntegrationModel.NangoProvider (nangoIntegrationResponse.Data integrations ! i)) \<and>
              UpdatedAt (Integrations s ! i) =
                StringValue (nangoIntegrationModel.UpdatedAt (nangoIntegrationResponse.Data integrations ! i)) \<and>
              Credentials (Integrations s ! i) = None)"
proof -
  from assms obtain res where res: "DataSourceRead E d = Returned res" "\<not> HasError (Diagnostics res)"
    using succeeded_Returned by blast
  from res show ?thesis
  proof (rule DataSourceRead_succeeded_cases)
    fix c sent response integrations
    assume c: "integrationDataSource.client d = Some c"
      and get: "Get E c (baseURL c @ ''/integrations'') = (sent, Inr response)"
      and dec: "decodeResponse E (Response.Body response) = Inr integrations"
      and r: "res = \<lparr>Requests = sent, Diagnostics = [],
       State = Some \<lparr>Integrations =
         appendIntegrations [] (nangoIntegrationResponse.Data integrations)\<rparr>\<rparr>"
    note G = Get_Inr [OF get]
    show ?thesis
      using c dec G by (simp add: res(1) r appendIntegrations_map)
  qed
qed

text \<open>
  A response of two elements gives the two integrations, in order, without credentials.
\<close>

theorem DataSourceRead_lists_in_order_witness:
  "succeeded (DataSourceRead exampleRuntime \<lparr>integrationDataSource.client = Some (exampleClient 200 bodyList)\<rparr>) \<and>
   stateOf (DataSourceRead exampleRuntime \<lparr>integrationDataSource.client = Some (exampleClient 200 bodyList)\<rparr>) =
     Some \<lparr>Integrations =
       [\<lparr>UniqueKey = StringValue ''gh1'', DisplayName = StringValue ''GitHub'',
         NangoProvider = StringValue ''github'', UpdatedAt = StringValue ''2024-05-01T10:00:00Z'',
         Credentials = None\<rparr>,
        \<lparr>UniqueKey = StringValue ''sl1'', DisplayName = StringValue ''Slack'',
         NangoProvider = StringValue ''slack'', UpdatedAt = StringValue ''2024-05-02T11:00:00Z'',
         Credentials = None\<rparr>]\<rparr>"
proof -
  have h: "succeeded (DataSourceRead exampleRuntime \<lparr>integrationDataSource.client = Some (exampleClient 200 bodyList)\<rparr>)"
    by (simp add: DataSourceRead_def op_defs example_defs)
  have s: "stateOf (DataSourceRead exampleRuntime \<lparr>integrationDataSource.client = Some (exampleClient 200 bodyList)\<rparr>) =
     Some \<lparr>Integrations =
       [\<lparr>UniqueKey = StringValue ''gh1'', DisplayName = StringValue ''GitHub'',
         NangoProvider = StringValue ''github'', UpdatedAt = StringValue ''2024-05-01T10:00:00Z'',
         Credentials = None\<rparr>,
        \<lparr>UniqueKey = StringValue ''sl1'', DisplayName = StringValue ''Slack'',
         NangoProvider = StringValue ''slack'', UpdatedAt = StringValue ''2024-05-02T11:00:00Z'',
         Credentials = None\<rparr>]\<rparr>"
    by (simp add: DataSourceRead_def op_defs example_defs)
  show ?thesis
    using DataSourceRead_lists_in_order [OF h] h s by simp
qed

subsection \<open>Status codes\<close>




















subsection \<open>The transport\<close>

text \<open>
  On a request without an Authorization value the transport leaves exactly the bearer value.
\<close>

lemma RoundTrip_fresh:
  "Header req ''Authorization'' = None \<Longrightarrow>
   Header_Values (Header (fst (RoundTrip t req))) ''Authorization'' = [''Bearer '' @ authKey t]"
  by (simp add: RoundTrip_def Header_Add_def Header_Values_def Let_def)

text \<open>
  C3. The claim asks the Authorization header after the transport to be exactly
  \<open>Bearer key\<close>, replacing any prior value. The transport adds to the header: a request that
  carries a value keeps it in front of the bearer value, and reading the header gives the
  prior value; a request sent through the transport a second time, as a retried request is,
  carries the bearer value twice.
\<close>

theorem RoundTrip_appends_authorization:
  "Header_Values (Header (fst (RoundTrip
       \<lparr>authKey = ''secret'', next = nangoClient.client (exampleClient 200 bodyNotFound)\<rparr>
       \<lparr>Method = ''GET'', URL = ''https://api.nango.dev/integrations'',
        Header = [''Authorization'' \<mapsto> [''Basic dXNlcjpwYXNz'']], Request.Body = None\<rparr>)))
     ''Authorization'' = [''Basic dXNlcjpwYXNz'', ''Bearer secret''] \<and>
   Header_Get (Header (fst (RoundTrip
       \<lparr>authKey = ''secret'', next = nangoClient.client (exampleClient 200 bodyNotFound)\<rparr>
       \<lparr>Method = ''GET'', URL = ''https://api.nango.dev/integrations'',
        Header = [''Authorization'' \<mapsto> [''Basic dXNlcjpwYXNz'']], Request.Body = None\<rparr>)))
     ''Authorization'' = ''Basic dXNlcjpwYXNz'' \<and>
   Header_Values (Header (fst (RoundTrip
       \<lparr>authKey = ''secret'', next = nangoClient.client (exampleClient 503 bodyNotFound)\<rparr>
       (fst (RoundTrip
         \<lparr>authKey = ''secret'', next = nangoClient.client (exampleClient 503 bodyNotFound)\<rparr>
         \<lparr>Method = ''GET'', URL = ''https://api.nango.dev/integrations'',
          Header = Map.empty, Request.Body = None\<rparr>)))))
     ''Authorization'' = [''Bearer secret'', ''Bearer secret'']"
  by (simp add: RoundTrip_def Header_Add_def Header_Values_def Header_Get_def Let_def)

subsection \<open>Scopes\<close>

text \<open>
  Flattening and then unflattening gives the scopes back when none of them is empty or
  holds a comma.
\<close>

lemma splitOn_no_sep: "sep \<notin> set x \<Longrightarrow> splitOn sep x = [x]"
  by (induction x) auto

lemma splitOn_append: "sep \<notin> set x \<Longrightarrow> splitOn sep (x @ sep # rest) = x # splitOn sep rest"
  by (induction x) auto

lemma splitOn_Join:
  "scopes \<noteq> [] \<Longrightarrow> \<forall>s \<in> set scopes. CHR '','' \<notin> set s \<Longrightarrow>
     splitOn (CHR '','') (Join scopes '','') = scopes"
  by (induction scopes "'',''" rule: Join.induct) (auto simp: splitOn_no_sep splitOn_append)

lemma Join_empty: "\<forall>s \<in> set scopes. s \<noteq> [] \<Longrightarrow> Join scopes sep = [] \<longleftrightarrow> scopes = []"
  by (induction scopes sep rule: Join.induct) auto

lemma unflatten_Join:
  assumes "\<forall>s \<in> set scopes. s \<noteq> [] \<and> CHR '','' \<notin> set s"
  shows "unflatten (Join scopes '','') = scopes"
  using assms Join_empty [of scopes "'',''"] splitOn_Join [of scopes]
  by (auto simp: unflatten_def)


end
